theory Spec2Isabelle
  imports Complex_Main "HOL-Library.Sublist"
begin

section \<open>Python values and exceptions\<close>

text \<open>
  The claims of a decoded token are JSON data. A Python float is either a finite
  binary fraction, which is a rational number, or one of the three special values.
\<close>

datatype pyfloat = Finite rat | PosInf | NegInf | NaN

datatype pyval =
    PNone
  | PBool bool
  | PInt int
  | PFloat pyfloat
  | PStr string
  | PList "pyval list"
  | PDict "(string \<times> pyval) list"

text \<open>
  The exception classes that can leave \<open>AuthMiddleware.dispatch\<close>. \<open>JWTError\<close> stands
  for \<open>jose.JWTError\<close> and its subclasses, which is what \<open>except JWTError\<close> matches;
  \<open>OtherException\<close> carries the class name of any other exception.
\<close>

datatype exn =
    JWTError
  | TypeError
  | ValueError
  | OverflowError
  | IndexError
  | OtherException string

subsection \<open>The builtin \<open>int\<close>\<close>

definition is_space :: "char \<Rightarrow> bool" where
  "is_space c = (c \<in> set [CHR '' '', CHR 0x09, CHR 0x0A, CHR 0x0B, CHR 0x0C, CHR 0x0D,
                            CHR 0x1C, CHR 0x1D, CHR 0x1E, CHR 0x1F])"

definition is_digit :: "char \<Rightarrow> bool" where
  "is_digit c = (c \<in> set ''0123456789'')"

definition digit_val :: "char \<Rightarrow> nat" where
  "digit_val c = of_char c - 48"

definition strip :: "string \<Rightarrow> string" where
  "strip s = rev (dropWhile is_space (rev (dropWhile is_space s)))"

text \<open>
  The digits of a decimal literal after its first digit: a single underscore is
  allowed between two digits and nowhere else.
\<close>

fun int_digits :: "nat \<Rightarrow> string \<Rightarrow> nat option" where
  "int_digits acc [] = Some acc"
| "int_digits acc [c] = (if is_digit c then Some (acc * 10 + digit_val c) else None)"
| "int_digits acc (c # d # ds) =
     (if is_digit c then int_digits (acc * 10 + digit_val c) (d # ds)
      else if c = CHR ''_'' \<and> is_digit d then int_digits (acc * 10 + digit_val d) ds
      else None)"

definition int_max_str_digits :: nat where
  "int_max_str_digits = 4300"

definition int_of_str :: "string \<Rightarrow> exn + int" where
  "int_of_str s =
     (let t = strip s;
          neg = (case t of [] \<Rightarrow> False | c # _ \<Rightarrow> c = CHR ''-'');
          body = (case t of [] \<Rightarrow> []
                  | c # cs \<Rightarrow> if c = CHR ''-'' \<or> c = CHR ''+'' then cs else t)
      in case body of
           [] \<Rightarrow> Inl ValueError
         | d # ds \<Rightarrow>
             if \<not> is_digit d then Inl ValueError
             else (case int_digits (digit_val d) ds of
                     None \<Rightarrow> Inl ValueError
                   | Some n \<Rightarrow>
                       if length (filter is_digit body) > int_max_str_digits
                       then Inl ValueError
                       else Inr (if neg then - int n else int n)))"

fun py_int :: "pyval \<Rightarrow> exn + int" where
  "py_int PNone = Inl TypeError"
| "py_int (PBool b) = Inr (if b then 1 else 0)"
| "py_int (PInt i) = Inr i"
| "py_int (PFloat (Finite q)) = Inr (if 0 \<le> q then \<lfloor>q\<rfloor> else \<lceil>q\<rceil>)"
| "py_int (PFloat PosInf) = Inl OverflowError"
| "py_int (PFloat NegInf) = Inl OverflowError"
| "py_int (PFloat NaN) = Inl ValueError"
| "py_int (PStr s) = int_of_str s"
| "py_int (PList xs) = Inl TypeError"
| "py_int (PDict kvs) = Inl TypeError"

subsection \<open>Strings, lists and dictionaries\<close>

definition startswith :: "string \<Rightarrow> string \<Rightarrow> bool" where
  "startswith s p = prefix p s"

text \<open>\<open>s.split(sep, 1)\<close> for a separator of one character.\<close>

definition split_once :: "char \<Rightarrow> string \<Rightarrow> string list" where
  "split_once sep s =
     (case dropWhile (\<lambda>c. c \<noteq> sep) s of
        [] \<Rightarrow> [s]
      | _ # rest \<Rightarrow> [takeWhile (\<lambda>c. c \<noteq> sep) s, rest])"

definition index :: "'a list \<Rightarrow> nat \<Rightarrow> exn + 'a" where
  "index xs i = (if i < length xs then Inr (xs ! i) else Inl IndexError)"

type_synonym claims = "(string \<times> pyval) list"

definition dict_contains :: "claims \<Rightarrow> string \<Rightarrow> bool" where
  "dict_contains d k = (map_of d k \<noteq> None)"

definition dict_get :: "claims \<Rightarrow> string \<Rightarrow> pyval \<Rightarrow> pyval" where
  "dict_get d k dflt = (case map_of d k of None \<Rightarrow> dflt | Some v \<Rightarrow> v)"

section \<open>The authentication middleware\<close>

definition PUBLIC_PATHS :: "string list" where
  "PUBLIC_PATHS = [''/api/auth'', ''/docs'', ''/redoc'', ''/openapi.json'', ''/health'']"

definition HTTP_401_UNAUTHORIZED :: nat where
  "HTTP_401_UNAUTHORIZED = 401"

text \<open>
  Modelled from the spec: \<open>app.core.jwt.decode_access_token\<close> is not part of the
  sources. The spec gives its interface: it takes the token and returns a claims
  mapping, or fails. A call either raises an exception or returns a payload; the
  payload is \<open>None\<close> or a dictionary, the two cases the middleware tests for.
\<close>

datatype decode_result = Raises exn | Returns "claims option"

text \<open>The dictionary stored in \<open>request.state.user\<close>.\<close>

record user_ctx =
  user_id :: int
  role :: pyval
  permissions :: pyval

text \<open>
  What the middleware reads of a request and what it writes: \<open>http_method\<close> is
  \<open>request.method\<close>, \<open>headers\<close> is the
  lookup \<open>request.headers.get\<close>, \<open>state_user\<close> is \<open>request.state.user\<close>, unset at
  \<open>None\<close>.
\<close>

record request =
  http_method :: string
  path :: string
  headers :: "string \<rightharpoonup> string"
  state_user :: "user_ctx option"

text \<open>
  The three ways \<open>dispatch\<close> ends: it hands the request to \<open>call_next\<close>, it returns
  a \<open>JSONResponse\<close> with a status code and a \<open>detail\<close> message, or an exception leaves it.
\<close>

datatype outcome =
    CallNext request
  | JSONResponse nat string
  | Raise exn

definition dispatch :: "(string \<Rightarrow> decode_result) \<Rightarrow> request \<Rightarrow> outcome" where
  "dispatch decode_access_token request =
     (if http_method request = ''OPTIONS'' then CallNext request
      else if list_ex (\<lambda>p. startswith (path request) p) PUBLIC_PATHS then CallNext request
      else
        (case headers request ''Authorization'' of
           None \<Rightarrow> JSONResponse HTTP_401_UNAUTHORIZED ''Authentication required''
         | Some auth_header \<Rightarrow>
             if auth_header = [] \<or> \<not> startswith auth_header ''Bearer ''
             then JSONResponse HTTP_401_UNAUTHORIZED ''Authentication required''
             else
               (case index (split_once CHR '' '' auth_header) 1 of
                  Inl e \<Rightarrow> Raise e
                | Inr token \<Rightarrow>
                    (case decode_access_token token of
                       Raises e \<Rightarrow>
                         if e = JWTError
                         then JSONResponse HTTP_401_UNAUTHORIZED ''Invalid or expired token''
                         else Raise e
                     | Returns payload \<Rightarrow>
                         (case payload of
                            None \<Rightarrow> JSONResponse HTTP_401_UNAUTHORIZED ''Invalid token payload''
                          | Some p \<Rightarrow>
                              if p = [] \<or> \<not> dict_contains p ''sub''
                              then JSONResponse HTTP_401_UNAUTHORIZED ''Invalid token payload''
                              else
                                (case py_int (dict_get p ''sub'' PNone) of
                                   Inl e \<Rightarrow> Raise e
                                 | Inr n \<Rightarrow>
                                     CallNext (request\<lparr>state_user := Some
                                       \<lparr>user_id = n,
                                        role = dict_get p ''role'' (PStr ''USER''),
                                        permissions = dict_get p ''permissions'' (PList [])\<rparr>\<rparr>)))))))"

text \<open>A request is protected when neither bypass applies to it.\<close>

definition protected :: "request \<Rightarrow> bool" where
  "protected request =
     (http_method request \<noteq> ''OPTIONS'' \<and>
      \<not> list_ex (\<lambda>p. startswith (path request) p) PUBLIC_PATHS)"

section \<open>The college service\<close>

definition HTTP_404_NOT_FOUND :: nat where
  "HTTP_404_NOT_FOUND = 404"

datatype http_exception = HTTPException nat string

text \<open>
  The \<open>College\<close> model is declared in \<open>app.models.models\<close>, outside the sources: its
  columns other than \<open>id\<close> and \<open>is_active\<close> are the parameter \<open>'cols\<close>. A nullable
  \<open>is_active\<close> reads as \<open>None\<close>. The table is keyed by the primary key \<open>id\<close>.
\<close>

record 'cols college =
  is_active :: "bool option"
  columns :: 'cols

type_synonym 'cols db = "int \<rightharpoonup> 'cols college"

definition get_college :: "'cols db \<Rightarrow> int \<Rightarrow> 'cols college option" where
  "get_college db college_id = db college_id"

definition delete_college :: "'cols db \<Rightarrow> int \<Rightarrow> (http_exception + unit) \<times> 'cols db" where
  "delete_college db college_id =
     (case get_college db college_id of
        None \<Rightarrow> (Inl (HTTPException HTTP_404_NOT_FOUND ''College not found''), db)
      | Some college \<Rightarrow>
          if is_active college \<noteq> Some True
          then (Inl (HTTPException HTTP_404_NOT_FOUND ''College not found''), db)
          else (Inr (), db(college_id \<mapsto> college\<lparr>is_active := Some False\<rparr>)))"

section \<open>Sample data\<close>

text \<open>A protected request carrying the bearer token \<open>abc\<close>, used to instantiate the theorems.\<close>

definition req0 :: request where
  "req0 = \<lparr>http_method = ''GET'', path = ''/api/admin/colleges'',
            headers = [''Authorization'' \<mapsto> ''Bearer abc''], state_user = None\<rparr>"

text \<open>A table with an active and an inactive college.\<close>

definition db0 :: "string db" where
  "db0 = [1 \<mapsto> \<lparr>is_active = Some True, columns = ''North College''\<rparr>,
          2 \<mapsto> \<lparr>is_active = Some False, columns = ''South College''\<rparr>]"

section \<open>Properties of the middleware\<close>

subsection \<open>Auxiliary facts\<close>

lemma token_after_bearer:
  "index (split_once CHR '' '' (''Bearer '' @ t)) 1 = Inr t"
  by (simp add: index_def split_once_def)

lemma startswith_bearer: "startswith (''Bearer '' @ t) ''Bearer ''"
  by (simp add: startswith_def)

lemma dispatch_bearer:
  assumes "protected request"
    and "headers request ''Authorization'' = Some (''Bearer '' @ t)"
  shows "dispatch d request =
     (case d t of
        Raises e \<Rightarrow>
          if e = JWTError
          then JSONResponse HTTP_401_UNAUTHORIZED ''Invalid or expired token''
          else Raise e
      | Returns payload \<Rightarrow>
          (case payload of
             None \<Rightarrow> JSONResponse HTTP_401_UNAUTHORIZED ''Invalid token payload''
           | Some p \<Rightarrow>
               if p = [] \<or> \<not> dict_contains p ''sub''
               then JSONResponse HTTP_401_UNAUTHORIZED ''Invalid token payload''
               else
                 (case py_int (dict_get p ''sub'' PNone) of
                    Inl e \<Rightarrow> Raise e
                  | Inr n \<Rightarrow>
                      CallNext (request\<lparr>state_user := Some
                        \<lparr>user_id = n,
                         role = dict_get p ''role'' (PStr ''USER''),
                         permissions = dict_get p ''permissions'' (PList [])\<rparr>\<rparr>))))"
proof -
  from assms(1) have np: "http_method request \<noteq> ''OPTIONS''"
    "\<not> list_ex (\<lambda>p. startswith (path request) p) PUBLIC_PATHS"
    by (simp_all add: protected_def)
  have tok: "index (split_once CHR '' '' (''Bearer '' @ t)) 1 = Inr t"
    by (rule token_after_bearer)
  have sw: "startswith (''Bearer '' @ t) ''Bearer ''" by (rule startswith_bearer)
  have ne: "''Bearer '' @ t \<noteq> []" by simp
  show ?thesis
    unfolding dispatch_def using np assms(2) tok sw ne by simp
qed

lemma protected_req0: "protected req0"
  by (simp add: protected_def req0_def PUBLIC_PATHS_def startswith_def)





subsection \<open>Preflight bypass\<close>

text \<open>
  C7. A request whose method is \<open>OPTIONS\<close> is handed to the downstream handler
  unchanged, with no identity attached, whatever its path and headers are and
  whatever the verification primitive would do: the preflight test comes first.
\<close>

theorem preflight_bypass:
  assumes "http_method request = ''OPTIONS''"
  shows "dispatch d request = CallNext request"
  using assms by (simp add: dispatch_def)

theorem preflight_bypass_witness:
  "http_method \<lparr>http_method = ''OPTIONS'', path = ''/api/admin/colleges'',
           headers = Map.empty, state_user = None\<rparr> = ''OPTIONS'' \<and>
   dispatch (\<lambda>_. Raises JWTError)
     \<lparr>http_method = ''OPTIONS'', path = ''/api/admin/colleges'',
      headers = Map.empty, state_user = None\<rparr> =
   CallNext \<lparr>http_method = ''OPTIONS'', path = ''/api/admin/colleges'',
      headers = Map.empty, state_user = None\<rparr>"
  using preflight_bypass [of "\<lparr>http_method = ''OPTIONS'', path = ''/api/admin/colleges'',
      headers = Map.empty, state_user = None\<rparr>" "\<lambda>_. Raises JWTError"]
  by simp

subsection \<open>Public paths\<close>

text \<open>
  C3. A request that is not \<open>OPTIONS\<close> and whose path is an entry of the allow-list
  followed by any string is handed to the downstream handler unchanged, whatever its
  \<open>Authorization\<close> header is. The path \<open>/api/auth/refresh\<close> is such a path: it is
  \<open>/api/auth\<close> followed by \<open>/refresh\<close>.
\<close>

theorem public_path_bypass:
  assumes "http_method request \<noteq> ''OPTIONS''"
    and "q \<in> {''/api/auth'', ''/docs'', ''/redoc'', ''/openapi.json'', ''/health''}"
    and "path request = q @ rest"
  shows "dispatch d request = CallNext request"
proof -
  have "q \<in> set PUBLIC_PATHS" using assms(2) by (simp add: PUBLIC_PATHS_def)
  moreover have "startswith (path request) q"
    using assms(3) by (simp add: startswith_def)
  ultimately have "list_ex (\<lambda>p. startswith (path request) p) PUBLIC_PATHS"
    unfolding list_ex_iff by blast
  then show ?thesis by (simp add: dispatch_def)
qed

theorem public_path_bypass_witness:
  "http_method \<lparr>http_method = ''POST'', path = ''/api/auth/refresh'',
           headers = [''Authorization'' \<mapsto> ''garbage''], state_user = None\<rparr> \<noteq> ''OPTIONS'' \<and>
   ''/api/auth'' \<in> {''/api/auth'', ''/docs'', ''/redoc'', ''/openapi.json'', ''/health''} \<and>
   path \<lparr>http_method = ''POST'', path = ''/api/auth/refresh'',
           headers = [''Authorization'' \<mapsto> ''garbage''], state_user = None\<rparr> = ''/api/auth'' @ ''/refresh'' \<and>
   dispatch (\<lambda>_. Raises JWTError)
     \<lparr>http_method = ''POST'', path = ''/api/auth/refresh'',
      headers = [''Authorization'' \<mapsto> ''garbage''], state_user = None\<rparr> =
   CallNext \<lparr>http_method = ''POST'', path = ''/api/auth/refresh'',
      headers = [''Authorization'' \<mapsto> ''garbage''], state_user = None\<rparr>"
  using public_path_bypass [of "\<lparr>http_method = ''POST'', path = ''/api/auth/refresh'',
      headers = [''Authorization'' \<mapsto> ''garbage''], state_user = None\<rparr>"
      "''/api/auth''" "''/refresh''" "\<lambda>_. Raises JWTError"]
  by simp

subsection \<open>Credential presence\<close>

text \<open>
  C5. A protected request whose \<open>Authorization\<close> header is absent, or does not start
  with \<open>Bearer \<close>, is answered with status 401 and the message
  \<open>Authentication required\<close>; the downstream handler is not called.
\<close>

theorem missing_credential:
  assumes "protected request"
    and "case headers request ''Authorization'' of
           None \<Rightarrow> True
         | Some h \<Rightarrow> \<not> prefix ''Bearer '' h"
  shows "dispatch d request = JSONResponse 401 ''Authentication required''"
proof -
  from assms(1) have np: "http_method request \<noteq> ''OPTIONS''"
    "\<not> list_ex (\<lambda>p. startswith (path request) p) PUBLIC_PATHS"
    by (simp_all add: protected_def)
  show ?thesis
  proof (cases "headers request ''Authorization''")
    case None
    with np show ?thesis
      by (simp add: dispatch_def HTTP_401_UNAUTHORIZED_def)
  next
    case (Some h)
    with assms(2) have "\<not> startswith h ''Bearer ''"
      by (simp add: startswith_def)
    with np Some show ?thesis
      by (simp add: dispatch_def HTTP_401_UNAUTHORIZED_def)
  qed
qed

theorem missing_credential_witness:
  "protected (req0\<lparr>headers := Map.empty\<rparr>) \<and>
   (case headers (req0\<lparr>headers := Map.empty\<rparr>) ''Authorization'' of
      None \<Rightarrow> True | Some h \<Rightarrow> \<not> prefix ''Bearer '' h) \<and>
   dispatch (\<lambda>_. Returns (Some [(''sub'', PStr ''1'')])) (req0\<lparr>headers := Map.empty\<rparr>) =
     JSONResponse 401 ''Authentication required''"
  using missing_credential [of "req0\<lparr>headers := Map.empty\<rparr>"
      "\<lambda>_. Returns (Some [(''sub'', PStr ''1'')])"]
  by (simp add: protected_def req0_def PUBLIC_PATHS_def startswith_def)

subsection \<open>Credential extraction\<close>

text \<open>
  C8. For a protected request whose \<open>Authorization\<close> header is \<open>Bearer \<close> followed by a
  string \<open>t\<close>, which may be empty and may contain spaces, the token that
  \<open>auth_header.split(" ", 1)[1]\<close> yields is exactly \<open>t\<close>, and the verification
  primitive is consulted at \<open>t\<close> only: the outcome is the one obtained with a
  primitive that answers every token the way it answers \<open>t\<close>.
\<close>

theorem token_verbatim:
  assumes "protected request"
    and "headers request ''Authorization'' = Some (''Bearer '' @ t)"
  shows "index (split_once CHR '' '' (''Bearer '' @ t)) 1 = Inr t \<and>
         dispatch decode_access_token request = dispatch (\<lambda>_. decode_access_token t) request"
proof (intro conjI)
  show "index (split_once CHR '' '' (''Bearer '' @ t)) 1 = Inr t"
    by (rule token_after_bearer)
  show "dispatch decode_access_token request = dispatch (\<lambda>_. decode_access_token t) request"
    by (simp only: dispatch_bearer [OF assms])
qed

theorem token_verbatim_witness:
  "protected (req0\<lparr>headers := [''Authorization'' \<mapsto> ''Bearer '' @ '' aB  c '']\<rparr>) \<and>
   headers (req0\<lparr>headers := [''Authorization'' \<mapsto> ''Bearer '' @ '' aB  c '']\<rparr>)
     ''Authorization'' = Some (''Bearer '' @ '' aB  c '') \<and>
   index (split_once CHR '' '' (''Bearer '' @ '' aB  c '')) 1 = Inr '' aB  c '' \<and>
   dispatch (\<lambda>token. Returns (Some [(''sub'', PInt 1), (''role'', PStr token)]))
     (req0\<lparr>headers := [''Authorization'' \<mapsto> ''Bearer '' @ '' aB  c '']\<rparr>) =
   CallNext (req0\<lparr>headers := [''Authorization'' \<mapsto> ''Bearer '' @ '' aB  c ''],
                  state_user := Some \<lparr>user_id = 1, role = PStr '' aB  c '',
                                      permissions = PList []\<rparr>\<rparr>)"
  using token_verbatim [of "req0\<lparr>headers := [''Authorization'' \<mapsto> ''Bearer '' @ '' aB  c '']\<rparr>"
      "'' aB  c ''" "\<lambda>token. Returns (Some [(''sub'', PInt 1), (''role'', PStr token)])"]
  by (simp add: req0_def protected_def PUBLIC_PATHS_def startswith_def dispatch_def
      index_def split_once_def dict_contains_def dict_get_def)

subsection \<open>Credential verification\<close>

text \<open>
  C1. For a protected request with a bearer token on which the verification primitive
  raises, the middleware answers 401 \<open>Invalid or expired token\<close> when the exception is a
  \<open>JWTError\<close>, and lets every other exception leave \<open>dispatch\<close> unchanged: it is not
  turned into a 401 response.
\<close>

theorem narrow_catch:
  assumes "protected request"
    and "headers request ''Authorization'' = Some (''Bearer '' @ t)"
    and "decode_access_token t = Raises e"
  shows "dispatch decode_access_token request =
     (if e = JWTError then JSONResponse 401 ''Invalid or expired token'' else Raise e)"
  using assms(3) by (simp add: dispatch_bearer [OF assms(1,2)] HTTP_401_UNAUTHORIZED_def)

theorem narrow_catch_witness:
  "protected req0 \<and>
   headers req0 ''Authorization'' = Some (''Bearer '' @ ''abc'') \<and>
   (\<lambda>_. Raises JWTError) ''abc'' = Raises JWTError \<and>
   (\<lambda>_. Raises (OtherException ''KeyStoreUnavailable'')) ''abc'' =
      Raises (OtherException ''KeyStoreUnavailable'') \<and>
   dispatch (\<lambda>_. Raises JWTError) req0 = JSONResponse 401 ''Invalid or expired token'' \<and>
   dispatch (\<lambda>_. Raises (OtherException ''KeyStoreUnavailable'')) req0 =
      Raise (OtherException ''KeyStoreUnavailable'')"
  using narrow_catch [of req0 "''abc''" "\<lambda>_. Raises JWTError" JWTError]
    narrow_catch [of req0 "''abc''" "\<lambda>_. Raises (OtherException ''KeyStoreUnavailable'')"
      "OtherException ''KeyStoreUnavailable''"]
    protected_req0
  by (simp add: req0_def)

subsection \<open>Claims shape\<close>

text \<open>
  C6. For a protected request whose token decodes without an exception, a payload that
  is \<open>None\<close>, is the empty dictionary, or has no key \<open>sub\<close> is answered with 401
  \<open>Invalid token payload\<close>; no identity is attached and the downstream handler is not
  called.
\<close>

theorem invalid_payload:
  assumes "protected request"
    and "headers request ''Authorization'' = Some (''Bearer '' @ t)"
    and "decode_access_token t = Returns payload"
    and "case payload of None \<Rightarrow> True | Some p \<Rightarrow> p = [] \<or> ''sub'' \<notin> fst ` set p"
  shows "dispatch decode_access_token request = JSONResponse 401 ''Invalid token payload''"
proof (cases payload)
  case None
  with assms(3) show ?thesis
    by (simp add: dispatch_bearer [OF assms(1,2)] HTTP_401_UNAUTHORIZED_def)
next
  case (Some p)
  with assms(4) have "p = [] \<or> \<not> dict_contains p ''sub''"
    by (auto simp: dict_contains_def map_of_eq_None_iff)
  with Some assms(3) show ?thesis
    by (simp add: dispatch_bearer [OF assms(1,2)] HTTP_401_UNAUTHORIZED_def)
qed

theorem invalid_payload_witness:
  "protected req0 \<and>
   headers req0 ''Authorization'' = Some (''Bearer '' @ ''abc'') \<and>
   (\<lambda>_. Returns (Some [(''role'', PStr ''ADMIN'')])) ''abc'' =
      Returns (Some [(''role'', PStr ''ADMIN'')]) \<and>
   (case Some [(''role'', PStr ''ADMIN'')] of
      None \<Rightarrow> True | Some p \<Rightarrow> p = [] \<or> ''sub'' \<notin> fst ` set p) \<and>
   dispatch (\<lambda>_. Returns (Some [(''role'', PStr ''ADMIN'')])) req0 =
      JSONResponse 401 ''Invalid token payload''"
  using invalid_payload [of req0 "''abc''" "\<lambda>_. Returns (Some [(''role'', PStr ''ADMIN'')])"
      "Some [(''role'', PStr ''ADMIN'')]"]
    protected_req0
  by (simp add: req0_def)

subsection \<open>Identity construction\<close>





subsection \<open>Determinism and idempotence\<close>



section \<open>Properties of the college service\<close>

text \<open>
  C10. When the college exists and is active, \<open>delete_college\<close> succeeds, the college is then
  inactive with its other columns unchanged, every other college is unchanged, and a
  second delete of the same college raises 404 \<open>College not found\<close>. When the college
  is absent or not active, \<open>delete_college\<close> raises 404 \<open>College not found\<close> and leaves the
  table unchanged.
\<close>

theorem delete_college_frame:
  "(\<forall>college. db college_id = Some college \<longrightarrow> is_active college = Some True \<longrightarrow>
      (\<exists>db'. delete_college db college_id = (Inr (), db') \<and>
         (\<exists>college'. db' college_id = Some college' \<and> is_active college' = Some False \<and>
                      columns college' = columns college) \<and>
         (\<forall>other. other \<noteq> college_id \<longrightarrow> db' other = db other) \<and>
         delete_college db' college_id =
           (Inl (HTTPException 404 ''College not found''), db'))) \<and>
   (db college_id = None \<or>
      (\<exists>college. db college_id = Some college \<and> is_active college \<noteq> Some True) \<longrightarrow>
      delete_college db college_id = (Inl (HTTPException 404 ''College not found''), db))"
proof (intro conjI allI impI)
  fix college
  assume c: "db college_id = Some college" and a: "is_active college = Some True"
  let ?db' = "db(college_id \<mapsto> college\<lparr>is_active := Some False\<rparr>)"
  have "delete_college db college_id = (Inr (), ?db')"
    using c a by (simp add: delete_college_def get_college_def)
  moreover have "\<exists>college'. ?db' college_id = Some college' \<and>
      is_active college' = Some False \<and> columns college' = columns college"
    by simp
  moreover have "\<forall>other. other \<noteq> college_id \<longrightarrow> ?db' other = db other"
    by simp
  moreover have "delete_college ?db' college_id =
      (Inl (HTTPException 404 ''College not found''), ?db')"
    by (simp add: delete_college_def get_college_def HTTP_404_NOT_FOUND_def)
  ultimately show "\<exists>db'. delete_college db college_id = (Inr (), db') \<and>
         (\<exists>college'. db' college_id = Some college' \<and> is_active college' = Some False \<and>
                      columns college' = columns college) \<and>
         (\<forall>other. other \<noteq> college_id \<longrightarrow> db' other = db other) \<and>
         delete_college db' college_id =
           (Inl (HTTPException 404 ''College not found''), db')"
    by blast
next
  assume "db college_id = None \<or>
      (\<exists>college. db college_id = Some college \<and> is_active college \<noteq> Some True)"
  then show "delete_college db college_id =
      (Inl (HTTPException 404 ''College not found''), db)"
    by (auto simp: delete_college_def get_college_def HTTP_404_NOT_FOUND_def)
qed

theorem delete_college_frame_witness:
  "db0 1 = Some \<lparr>is_active = Some True, columns = ''North College''\<rparr> \<and>
   is_active \<lparr>is_active = Some True, columns = ''North College''\<rparr> = Some True \<and>
   delete_college db0 1 =
     (Inr (), db0(1 \<mapsto> \<lparr>is_active = Some False, columns = ''North College''\<rparr>)) \<and>
   delete_college (db0(1 \<mapsto> \<lparr>is_active = Some False, columns = ''North College''\<rparr>)) 1 =
     (Inl (HTTPException 404 ''College not found''),
      db0(1 \<mapsto> \<lparr>is_active = Some False, columns = ''North College''\<rparr>)) \<and>
   db0 3 = None \<and>
   delete_college db0 3 = (Inl (HTTPException 404 ''College not found''), db0)"
  using delete_college_frame [of db0 1] delete_college_frame [of db0 3]
  by (simp add: db0_def delete_college_def get_college_def HTTP_404_NOT_FOUND_def)

end
